theory Spec2Isabelle
  imports Complex_Main "HOL-Library.Sublist"
begin

section \<open>Typed failures and the caller's identity\<close>

text \<open>
  Every procedure of the routers either returns a value or throws a \<open>TRPCError\<close> carrying a
  code and a message. A JavaScript runtime error that no handler catches (reading a property
  of \<open>null\<close>) reaches the caller as \<open>INTERNAL_SERVER_ERROR\<close>.
\<close>

datatype trpc_code =
  NOT_FOUND | UNAUTHORIZED | FORBIDDEN | BAD_REQUEST | CONFLICT | INTERNAL_SERVER_ERROR

datatype trpc_error = TRPCError trpc_code string

definition uncaughtTypeError :: trpc_error where
  "uncaughtTypeError = TRPCError INTERNAL_SERVER_ERROR ''TypeError''"

text \<open>
  The session comes from the authentication provider: it may be absent, it may lack a user,
  and the user's \<open>role\<close> is read through a cast, so it may be undefined.
\<close>

record session_user =
  u_id :: string
  u_name :: string
  u_email :: string
  u_role :: "string option"

record session =
  s_user :: "session_user option"

subsection \<open>Middlewares of init.ts\<close>

definition isAuthed :: "session option \<Rightarrow> trpc_error + session_user" where
  "isAuthed s =
     (case s of
        None \<Rightarrow> Inl (TRPCError UNAUTHORIZED ''You must be logged in to access this resource'')
      | Some ss \<Rightarrow>
          (case s_user ss of
             None \<Rightarrow> Inl (TRPCError UNAUTHORIZED ''You must be logged in to access this resource'')
           | Some u \<Rightarrow> Inr u))"

definition isOwner :: "session option \<Rightarrow> trpc_error + session_user" where
  "isOwner s =
     (case s of
        None \<Rightarrow> Inl (TRPCError UNAUTHORIZED ''You must be logged in to access this resource'')
      | Some ss \<Rightarrow>
          (case s_user ss of
             None \<Rightarrow> Inl (TRPCError UNAUTHORIZED ''You must be logged in to access this resource'')
           | Some u \<Rightarrow>
               if u_role u \<noteq> Some ''OWNER''
               then Inl (TRPCError FORBIDDEN ''You must be a restaurant owner to access this resource'')
               else Inr u))"

section \<open>JavaScript numbers\<close>

text \<open>
  \<open>placeOrder\<close> computes with JavaScript numbers, that is IEEE 754 binary64 values with
  round-to-nearest, ties-to-even. A finite number \<open>Fin m e\<close> stands for \<open>m * 2 ^ e\<close> in the
  encoding's own normal form: \<open>2 ^ 52 \<le> \<bar>m\<bar> < 2 ^ 53\<close> with \<open>- 1074 \<le> e \<le> 971\<close> for a normal
  number, \<open>\<bar>m\<bar> < 2 ^ 52\<close> with \<open>e = - 1074\<close> for a subnormal one, and \<open>Fin 0 0\<close> for zero (the
  two signed zeros are identified: nothing here divides by a number or prints its sign).
\<close>

datatype jsnum = Fin int int | PInf | NInf | NaN

function bitlen :: "int \<Rightarrow> int" where
  "bitlen n = (if n \<le> 0 then 0 else 1 + bitlen (n div 2))"
  by pat_completeness auto
termination
  by (relation "measure nat") auto

declare bitlen.simps [simp del]

text \<open>Rounding the quotient \<open>n / d\<close> of two non-negative integers to the nearest integer, ties to even.\<close>

definition roundHalfEven :: "int \<Rightarrow> int \<Rightarrow> int" where
  "roundHalfEven n d =
     (let q = n div d; r = n mod d
      in if 2 * r < d then q else if d < 2 * r then q + 1 else if even q then q else q + 1)"

text \<open>The binary exponent of \<open>n / d\<close>, both positive: the \<open>k\<close> with \<open>2 ^ k \<le> n / d < 2 ^ (k + 1)\<close>.\<close>

definition ilog2 :: "int \<Rightarrow> int \<Rightarrow> int" where
  "ilog2 n d =
     (let k = bitlen n - bitlen d
      in if (if 0 \<le> k then d * 2 ^ nat k \<le> n else d \<le> n * 2 ^ nat (- k)) then k else k - 1)"

definition signedInf :: "bool \<Rightarrow> jsnum" where
  "signedInf neg = (if neg then NInf else PInf)"

text \<open>The binary64 value nearest to the rational \<open>n / d\<close> (\<open>0 < d\<close>).\<close>

definition round64 :: "int \<Rightarrow> int \<Rightarrow> jsnum" where
  "round64 n d =
     (if n = 0 then Fin 0 0
      else
        let neg = (n < 0);
            a = \<bar>n\<bar>;
            e = ilog2 a d
        in if 1024 \<le> e then signedInf neg
           else
             let t = max e (- 1022) - 52;
                 m = (if 0 \<le> t then roundHalfEven a (d * 2 ^ nat t)
                      else roundHalfEven (a * 2 ^ nat (- t)) d);
                 m' = (if m = 2 ^ 53 then 2 ^ 52 else m);
                 t' = (if m = 2 ^ 53 then t + 1 else t)
             in if 971 < t' then signedInf neg
                else if m' = 0 then Fin 0 0
                else Fin (if neg then - m' else m') t')"


text \<open>\<open>a + b\<close> and \<open>a * b\<close> on numbers: the exact result, rounded once.\<close>

fun js_add :: "jsnum \<Rightarrow> jsnum \<Rightarrow> jsnum" where
  "js_add (Fin m1 e1) (Fin m2 e2) =
     (let e = min e1 e2;
          s = m1 * 2 ^ nat (e1 - e) + m2 * 2 ^ nat (e2 - e)
      in if e < 0 then round64 s (2 ^ nat (- e)) else round64 (s * 2 ^ nat e) 1)"
| "js_add NaN y = NaN"
| "js_add x NaN = NaN"
| "js_add PInf NInf = NaN"
| "js_add NInf PInf = NaN"
| "js_add PInf y = PInf"
| "js_add x PInf = PInf"
| "js_add NInf y = NInf"
| "js_add x NInf = NInf"

fun js_mul :: "jsnum \<Rightarrow> jsnum \<Rightarrow> jsnum" where
  "js_mul (Fin m1 e1) (Fin m2 e2) =
     (let e = e1 + e2; p = m1 * m2
      in if e < 0 then round64 p (2 ^ nat (- e)) else round64 (p * 2 ^ nat e) 1)"
| "js_mul NaN y = NaN"
| "js_mul x NaN = NaN"
| "js_mul PInf (Fin m e) = (if m = 0 then NaN else signedInf (m < 0))"
| "js_mul NInf (Fin m e) = (if m = 0 then NaN else signedInf (0 < m))"
| "js_mul (Fin m e) PInf = (if m = 0 then NaN else signedInf (m < 0))"
| "js_mul (Fin m e) NInf = (if m = 0 then NaN else signedInf (0 < m))"
| "js_mul PInf PInf = PInf"
| "js_mul NInf NInf = PInf"
| "js_mul PInf NInf = NInf"
| "js_mul NInf PInf = NInf"

text \<open>\<open>a >= b\<close> on numbers: false as soon as one side is \<open>NaN\<close>.\<close>

fun js_ge :: "jsnum \<Rightarrow> jsnum \<Rightarrow> bool" where
  "js_ge NaN y = False"
| "js_ge x NaN = False"
| "js_ge PInf y = True"
| "js_ge x NInf = True"
| "js_ge NInf y = False"
| "js_ge x PInf = False"
| "js_ge (Fin m1 e1) (Fin m2 e2) =
     (let e = min e1 e2 in m2 * 2 ^ nat (e2 - e) \<le> m1 * 2 ^ nat (e1 - e))"

text \<open>
  A \<open>decimal(10, 2)\<close> column holds a whole number of hundredths; the driver returns it as the
  decimal string, and \<open>Number\<close> of that string is the binary64 value nearest to it.
\<close>

type_synonym decimal2 = int

definition Number :: "decimal2 \<Rightarrow> jsnum" where
  "Number p = round64 p 100"

text \<open>A number literal or JSON number that is a whole number.\<close>

definition js_int :: "int \<Rightarrow> jsnum" where
  "js_int n = round64 n 1"

section \<open>The tables of schema/restaurant.ts\<close>

text \<open>
  One record per table, one field per column; a nullable column is an \<open>option\<close>, a timestamp
  is a number of milliseconds. The \<open>status\<close> column of \<open>orders\<close> is text in the schema; every
  write of the routers stores one of the five literals of \<open>orderStatusEnum\<close>, so the column is
  modelled by that enumeration. The three decimal columns of an order item and \<open>totalAmount\<close>
  of an order hold the JavaScript number that \<open>placeOrder\<close> hands to the storage layer.
\<close>

datatype order_status = PENDING | PREPARING | READY | COMPLETED | CANCELLED

record restaurant =
  r_id :: string
  r_name :: string
  r_description :: "string option"
  r_slug :: string
  r_location :: "string option"
  r_phone :: "string option"
  r_email :: "string option"
  r_logo :: "string option"
  r_coverImage :: "string option"
  r_isActive :: bool
  r_ownerId :: string
  r_createdAt :: nat
  r_updatedAt :: nat

record menu_category =
  c_id :: string
  c_name :: string
  c_description :: "string option"
  c_displayOrder :: decimal2
  c_restaurantId :: string
  c_createdAt :: nat
  c_updatedAt :: nat

record menu_item =
  mi_id :: string
  mi_name :: string
  mi_description :: "string option"
  mi_price :: decimal2
  mi_image :: "string option"
  mi_isAvailable :: bool
  mi_displayOrder :: decimal2
  mi_category :: "string option"
  mi_ingredients :: "string option"
  mi_preparationTime :: "string option"
  mi_categoryId :: string
  mi_restaurantId :: string
  mi_createdAt :: nat
  mi_updatedAt :: nat

record order =
  o_id :: string
  o_orderNumber :: string
  o_totalAmount :: jsnum
  o_status :: order_status
  o_customerName :: "string option"
  o_customerEmail :: "string option"
  o_customerPhone :: "string option"
  o_notes :: "string option"
  o_estimatedDeliveryTime :: "nat option"
  o_actualDeliveryTime :: "nat option"
  o_restaurantId :: string
  o_customerId :: string
  o_createdAt :: nat
  o_updatedAt :: nat

record order_item =
  oi_id :: string
  oi_quantity :: jsnum
  oi_unitPrice :: jsnum
  oi_totalPrice :: jsnum
  oi_specialInstructions :: "string option"
  oi_orderId :: string
  oi_menuItemId :: string
  oi_createdAt :: nat
  oi_updatedAt :: nat

record db =
  restaurants :: "restaurant list"
  menuCategories :: "menu_category list"
  menuItems :: "menu_item list"
  orders :: "order list"
  orderItems :: "order_item list"

text \<open>
  The storage engine is a collaborator: whether it accepts a row is its decision, taken on
  the table as it stands. \<open>placeOrder\<close> wraps its two kinds of insert in \<open>try\<close>, so both can
  throw. The updates of \<open>updateStatus\<close> and \<open>cancelOrder\<close> write text and timestamp columns
  that carry no constraint, and reads return the rows in table order.
\<close>

record storage =
  insertOrderOk :: "db \<Rightarrow> order \<Rightarrow> bool"
  insertOrderItemOk :: "db \<Rightarrow> order_item \<Rightarrow> bool"

text \<open>
  What a call reads from outside the program: the successive results of \<open>nanoid()\<close>, the clock
  (one reading per call), the nine characters that \<open>Math.random()\<close> contributes to the order
  number, and the library's test for an e-mail address.
\<close>

record runtime =
  nanoid :: "nat \<Rightarrow> string"
  dateNow :: nat
  randomSuffix :: string
  isEmail :: "string \<Rightarrow> bool"

type_synonym 'r outcome = "db \<times> (trpc_error + 'r)"

text \<open>
  A procedure is its middleware chain followed by the handler, run on the database; a
  middleware that throws leaves the database as it was.
\<close>

definition publicProcedure :: "(db \<Rightarrow> 'r outcome) \<Rightarrow> session option \<Rightarrow> db \<Rightarrow> 'r outcome" where
  "publicProcedure handler s d = handler d"

definition protectedProcedure ::
  "(session_user \<Rightarrow> db \<Rightarrow> 'r outcome) \<Rightarrow> session option \<Rightarrow> db \<Rightarrow> 'r outcome" where
  "protectedProcedure handler s d =
     (case isAuthed s of Inl e \<Rightarrow> (d, Inl e) | Inr u \<Rightarrow> handler u d)"

definition ownerProcedure ::
  "(session_user \<Rightarrow> db \<Rightarrow> 'r outcome) \<Rightarrow> session option \<Rightarrow> db \<Rightarrow> 'r outcome" where
  "ownerProcedure handler s d =
     (case isAuthed s of
        Inl e \<Rightarrow> (d, Inl e)
      | Inr u \<Rightarrow> (case isOwner s of Inl e \<Rightarrow> (d, Inl e) | Inr u' \<Rightarrow> handler u' d))"

section \<open>The order router\<close>

subsection \<open>Helpers of the language\<close>

text \<open>Decimal digits of a natural number, as template literals print \<open>Date.now()\<close>.\<close>

fun show_nat :: "nat \<Rightarrow> string" where
  "show_nat n =
     (if n < 10 then [''0123456789'' ! n]
      else show_nat (n div 10) @ [''0123456789'' ! (n mod 10)])"

declare show_nat.simps [simp del]

text \<open>\<open>a || b\<close> on an optional string: \<open>undefined\<close> and the empty string are falsy.\<close>

definition js_or :: "string option \<Rightarrow> string \<Rightarrow> string" where
  "js_or a b = (case a of None \<Rightarrow> b | Some x \<Rightarrow> if x = [] then b else x)"

text \<open>An input that fails its schema is rejected before the handler runs.\<close>

definition inputError :: trpc_error where
  "inputError = TRPCError BAD_REQUEST ''Input validation failed''"

subsection \<open>placeOrder\<close>

record cart_item =
  ci_menuItemId :: string
  ci_quantity :: jsnum
  ci_specialInstructions :: "string option"

record placeOrder_input =
  pi_restaurantId :: string
  pi_items :: "cart_item list"
  pi_customerName :: "string option"
  pi_customerEmail :: "string option"
  pi_customerPhone :: "string option"
  pi_notes :: "string option"

text \<open>
  The schema of the input: \<open>items\<close> is an array with no minimum length, each \<open>quantity\<close> is a
  number with \<open>min(1)\<close>, and \<open>customerEmail\<close>, when given, is an e-mail address.
\<close>

definition placeOrder_inputOk :: "runtime \<Rightarrow> placeOrder_input \<Rightarrow> bool" where
  "placeOrder_inputOk rt input =
     (list_all (\<lambda>item. js_ge (ci_quantity item) (js_int 1)) (pi_items input) \<and>
      (case pi_customerEmail input of None \<Rightarrow> True | Some e \<Rightarrow> isEmail rt e))"

text \<open>
  The first loop: every requested item is looked up and checked, in cart order. The
  \<open>findMany\<close> before the loop is a read whose result, \<open>menuItemsDb\<close>, is never used; it has
  no part in the outcome and is left out.
\<close>

fun checkItems :: "db \<Rightarrow> string \<Rightarrow> cart_item list \<Rightarrow> trpc_error option" where
  "checkItems d rid [] = None"
| "checkItems d rid (item # rest) =
     (case find (\<lambda>m. mi_id m = ci_menuItemId item) (menuItems d) of
        None \<Rightarrow> Some (TRPCError NOT_FOUND (''Menu item not found: '' @ ci_menuItemId item))
      | Some menuItem \<Rightarrow>
          if \<not> mi_isAvailable menuItem
          then Some (TRPCError BAD_REQUEST (''Menu item is not available: '' @ mi_name menuItem))
          else if mi_restaurantId menuItem \<noteq> rid
          then Some (TRPCError BAD_REQUEST
                      (''Menu item does not belong to this restaurant: '' @ mi_name menuItem))
          else checkItems d rid rest)"

record order_item_data =
  oid_id :: string
  oid_menuItemId :: string
  oid_quantity :: jsnum
  oid_unitPrice :: jsnum
  oid_totalPrice :: jsnum
  oid_specialInstructions :: "string option"

text \<open>
  The second loop: \<open>k\<close> counts the calls of \<open>nanoid()\<close> so far, \<open>totalAmount\<close> and
  \<open>orderItemsData\<close> are the two variables the loop updates. The item is looked up again; were
  it gone, reading its price would throw outside the \<open>try\<close>.
\<close>

fun computeItems ::
  "db \<Rightarrow> runtime \<Rightarrow> nat \<Rightarrow> jsnum \<Rightarrow> order_item_data list \<Rightarrow> cart_item list
     \<Rightarrow> trpc_error + (jsnum \<times> order_item_data list)" where
  "computeItems d rt k totalAmount orderItemsData [] = Inr (totalAmount, orderItemsData)"
| "computeItems d rt k totalAmount orderItemsData (item # rest) =
     (case find (\<lambda>m. mi_id m = ci_menuItemId item) (menuItems d) of
        None \<Rightarrow> Inl uncaughtTypeError
      | Some menuItem \<Rightarrow>
          let unitPrice = Number (mi_price menuItem);
              quantity = ci_quantity item;
              totalPrice = js_mul unitPrice quantity
          in computeItems d rt (Suc k) (js_add totalAmount totalPrice)
               (orderItemsData @
                [\<lparr>oid_id = nanoid rt k,
                  oid_menuItemId = ci_menuItemId item,
                  oid_quantity = quantity,
                  oid_unitPrice = unitPrice,
                  oid_totalPrice = totalPrice,
                  oid_specialInstructions = ci_specialInstructions item\<rparr>])
               rest)"

definition orderItemRow :: "runtime \<Rightarrow> string \<Rightarrow> order_item_data \<Rightarrow> order_item" where
  "orderItemRow rt orderId itemData =
     \<lparr>oi_id = oid_id itemData,
      oi_quantity = oid_quantity itemData,
      oi_unitPrice = oid_unitPrice itemData,
      oi_totalPrice = oid_totalPrice itemData,
      oi_specialInstructions = oid_specialInstructions itemData,
      oi_orderId = orderId,
      oi_menuItemId = oid_menuItemId itemData,
      oi_createdAt = dateNow rt,
      oi_updatedAt = dateNow rt\<rparr>"

text \<open>
  The third loop, inside \<open>try\<close>: one insert per item, each committed on its own. The result
  says whether every insert went through; the database returned holds the rows inserted
  before the first failure.
\<close>

fun insertItems ::
  "storage \<Rightarrow> runtime \<Rightarrow> string \<Rightarrow> order_item_data list \<Rightarrow> db \<Rightarrow> db \<times> bool" where
  "insertItems st rt orderId [] d = (d, True)"
| "insertItems st rt orderId (itemData # rest) d =
     (if insertOrderItemOk st d (orderItemRow rt orderId itemData)
      then insertItems st rt orderId rest
             (d\<lparr>orderItems := orderItems d @ [orderItemRow rt orderId itemData]\<rparr>)
      else (d, False))"

definition newOrderRow ::
  "runtime \<Rightarrow> placeOrder_input \<Rightarrow> session_user \<Rightarrow> jsnum \<Rightarrow> order" where
  "newOrderRow rt input u totalAmount =
     \<lparr>o_id = nanoid rt (length (pi_items input)),
      o_orderNumber = ''ORD-'' @ show_nat (dateNow rt) @ ''-'' @ randomSuffix rt,
      o_totalAmount = totalAmount,
      o_status = PENDING,
      o_customerName = Some (js_or (pi_customerName input) (u_name u)),
      o_customerEmail = Some (js_or (pi_customerEmail input) (u_email u)),
      o_customerPhone = pi_customerPhone input,
      o_notes = pi_notes input,
      o_estimatedDeliveryTime = None,
      o_actualDeliveryTime = None,
      o_restaurantId = pi_restaurantId input,
      o_customerId = u_id u,
      o_createdAt = dateNow rt,
      o_updatedAt = dateNow rt\<rparr>"

definition failedToCreate :: trpc_error where
  "failedToCreate = TRPCError INTERNAL_SERVER_ERROR ''Failed to create order''"

definition placeOrder_handler ::
  "storage \<Rightarrow> runtime \<Rightarrow> placeOrder_input \<Rightarrow> session_user \<Rightarrow> db \<Rightarrow> order outcome" where
  "placeOrder_handler st rt input u d =
     (case find (\<lambda>r. r_id r = pi_restaurantId input) (restaurants d) of
        None \<Rightarrow> (d, Inl (TRPCError NOT_FOUND ''Restaurant not found or not available''))
      | Some restaurant \<Rightarrow>
          if \<not> r_isActive restaurant
          then (d, Inl (TRPCError NOT_FOUND ''Restaurant not found or not available''))
          else
            (case checkItems d (pi_restaurantId input) (pi_items input) of
               Some e \<Rightarrow> (d, Inl e)
             | None \<Rightarrow>
                 (case computeItems d rt 0 (js_int 0) [] (pi_items input) of
                    Inl e \<Rightarrow> (d, Inl e)
                  | Inr (totalAmount, orderItemsData) \<Rightarrow>
                      let newOrder = newOrderRow rt input u totalAmount
                      in if \<not> insertOrderOk st d newOrder then (d, Inl failedToCreate)
                         else
                           (case insertItems st rt (o_id newOrder) orderItemsData
                                   (d\<lparr>orders := orders d @ [newOrder]\<rparr>) of
                              (d', ok) \<Rightarrow>
                                if ok then (d', Inr newOrder) else (d', Inl failedToCreate)))))"

definition placeOrder ::
  "storage \<Rightarrow> runtime \<Rightarrow> placeOrder_input \<Rightarrow> session option \<Rightarrow> db \<Rightarrow> order outcome" where
  "placeOrder st rt input =
     protectedProcedure
       (\<lambda>u d. if \<not> placeOrder_inputOk rt input then (d, Inl inputError)
              else placeOrder_handler st rt input u d)"

subsection \<open>updateStatus\<close>

record updateStatus_input =
  us_id :: string
  us_status :: order_status

definition validTransitions :: "order_status \<Rightarrow> order_status list" where
  "validTransitions s =
     (case s of
        PENDING \<Rightarrow> [PREPARING, CANCELLED]
      | PREPARING \<Rightarrow> [READY, CANCELLED]
      | READY \<Rightarrow> [COMPLETED, CANCELLED]
      | COMPLETED \<Rightarrow> []
      | CANCELLED \<Rightarrow> [])"

definition show_status :: "order_status \<Rightarrow> string" where
  "show_status s =
     (case s of
        PENDING \<Rightarrow> ''PENDING''
      | PREPARING \<Rightarrow> ''PREPARING''
      | READY \<Rightarrow> ''READY''
      | COMPLETED \<Rightarrow> ''COMPLETED''
      | CANCELLED \<Rightarrow> ''CANCELLED'')"

text \<open>
  Modelled from the spec: the relation \<open>restaurant\<close> of an order, declared outside the files at
  hand; the spec's data model gives an order the \<open>restaurantId\<close> of its restaurant.
\<close>

definition orderRestaurant :: "db \<Rightarrow> order \<Rightarrow> restaurant option" where
  "orderRestaurant d ord = find (\<lambda>r. r_id r = o_restaurantId ord) (restaurants d)"

definition updateStatus_handler ::
  "runtime \<Rightarrow> updateStatus_input \<Rightarrow> session_user \<Rightarrow> db \<Rightarrow> order option outcome" where
  "updateStatus_handler rt input u d =
     (case find (\<lambda>ord. o_id ord = us_id input) (orders d) of
        None \<Rightarrow> (d, Inl (TRPCError NOT_FOUND ''Order not found''))
      | Some existingOrder \<Rightarrow>
          (case orderRestaurant d existingOrder of
             None \<Rightarrow> (d, Inl uncaughtTypeError)
           | Some restaurant \<Rightarrow>
               if r_ownerId restaurant \<noteq> u_id u
               then (d, Inl (TRPCError FORBIDDEN
                               ''You can only update orders for your own restaurants''))
               else
                 let currentStatus = o_status existingOrder;
                     newStatus = us_status input
                 in if newStatus \<notin> set (validTransitions currentStatus)
                    then (d, Inl (TRPCError BAD_REQUEST
                                    (''Invalid status transition from '' @ show_status currentStatus
                                       @ '' to '' @ show_status newStatus)))
                    else
                      let d' = d\<lparr>orders :=
                                 map (\<lambda>ord.
                                        if o_id ord = us_id input
                                        then ord\<lparr>o_status := newStatus,
                                                 o_updatedAt := dateNow rt,
                                                 o_actualDeliveryTime :=
                                                   (if newStatus = COMPLETED then Some (dateNow rt)
                                                    else o_actualDeliveryTime ord)\<rparr>
                                        else ord)
                                   (orders d)\<rparr>
                      in (d', Inr (find (\<lambda>ord. o_id ord = us_id input) (orders d')))))"

definition updateStatus ::
  "runtime \<Rightarrow> updateStatus_input \<Rightarrow> session option \<Rightarrow> db \<Rightarrow> order option outcome" where
  "updateStatus rt input = ownerProcedure (updateStatus_handler rt input)"

subsection \<open>cancelOrder\<close>

record cancelOrder_input =
  co_id :: string
  co_reason :: "string option"

definition cancelNote :: "string option \<Rightarrow> string" where
  "cancelNote reason =
     (case reason of
        None \<Rightarrow> ''Cancelled by customer''
      | Some r \<Rightarrow> if r \<noteq> [] then ''Cancelled: '' @ r else ''Cancelled by customer'')"

definition cancelOrder_handler ::
  "runtime \<Rightarrow> cancelOrder_input \<Rightarrow> session_user \<Rightarrow> db \<Rightarrow> order option outcome" where
  "cancelOrder_handler rt input u d =
     (case find (\<lambda>ord. o_id ord = co_id input) (orders d) of
        None \<Rightarrow> (d, Inl (TRPCError NOT_FOUND ''Order not found''))
      | Some existingOrder \<Rightarrow>
          if o_customerId existingOrder \<noteq> u_id u
          then (d, Inl (TRPCError FORBIDDEN ''You can only cancel your own orders''))
          else if o_status existingOrder \<noteq> PENDING
          then (d, Inl (TRPCError BAD_REQUEST ''Only pending orders can be cancelled''))
          else
            let d' = d\<lparr>orders :=
                       map (\<lambda>ord.
                              if o_id ord = co_id input
                              then ord\<lparr>o_status := CANCELLED,
                                       o_notes := Some (cancelNote (co_reason input)),
                                       o_updatedAt := dateNow rt\<rparr>
                              else ord)
                         (orders d)\<rparr>
            in (d', Inr (find (\<lambda>ord. o_id ord = co_id input) (orders d'))))"

definition cancelOrder ::
  "runtime \<Rightarrow> cancelOrder_input \<Rightarrow> session option \<Rightarrow> db \<Rightarrow> order option outcome" where
  "cancelOrder rt input = protectedProcedure (cancelOrder_handler rt input)"

section \<open>The restaurant router\<close>

text \<open>
  Modelled from the spec: the relation \<open>menuCategories\<close> of a restaurant, declared outside the
  files at hand; the spec's data model gives a category the \<open>restaurantId\<close> of its restaurant.
\<close>

definition restaurantCategories :: "db \<Rightarrow> restaurant \<Rightarrow> menu_category list" where
  "restaurantCategories d r = filter (\<lambda>c. c_restaurantId c = r_id r) (menuCategories d)"

text \<open>
  Modelled from the spec: the relation \<open>menuItems\<close> of a category, declared outside the files
  at hand; the spec's data model gives an item the \<open>categoryId\<close> of its category.
\<close>

definition categoryItems :: "db \<Rightarrow> menu_category \<Rightarrow> menu_item list" where
  "categoryItems d c = filter (\<lambda>i. mi_categoryId i = c_id c) (menuItems d)"

record category_with_items =
  cw_category :: menu_category
  cw_menuItems :: "menu_item list"

record restaurant_with_menu =
  rw_restaurant :: restaurant
  rw_menuCategories :: "category_with_items list"

subsection \<open>getBySlug and getAllPublic\<close>

definition getBySlug :: "string \<Rightarrow> session option \<Rightarrow> db \<Rightarrow> restaurant_with_menu outcome" where
  "getBySlug slug =
     publicProcedure
       (\<lambda>d. case find (\<lambda>r. r_slug r = slug) (restaurants d) of
               None \<Rightarrow> (d, Inl (TRPCError NOT_FOUND ''Restaurant not found''))
             | Some restaurant \<Rightarrow>
                 (d, Inr \<lparr>rw_restaurant = restaurant,
                          rw_menuCategories =
                            map (\<lambda>c. \<lparr>cw_category = c,
                                       cw_menuItems =
                                         sort_key mi_displayOrder
                                           (filter mi_isAvailable (categoryItems d c))\<rparr>)
                              (sort_key c_displayOrder (restaurantCategories d restaurant))\<rparr>))"

record public_restaurant =
  pr_id :: string
  pr_name :: string
  pr_description :: "string option"
  pr_slug :: string
  pr_location :: "string option"
  pr_logo :: "string option"
  pr_coverImage :: "string option"

definition publicColumns :: "restaurant \<Rightarrow> public_restaurant" where
  "publicColumns r =
     \<lparr>pr_id = r_id r, pr_name = r_name r, pr_description = r_description r,
      pr_slug = r_slug r, pr_location = r_location r, pr_logo = r_logo r,
      pr_coverImage = r_coverImage r\<rparr>"

definition getAllPublic :: "session option \<Rightarrow> db \<Rightarrow> public_restaurant list outcome" where
  "getAllPublic =
     publicProcedure
       (\<lambda>d. (d, Inr (map publicColumns
                        (rev (sort_key r_createdAt (filter r_isActive (restaurants d)))))))"

subsection \<open>getById\<close>

record limited_item =
  li_id :: string
  li_name :: string
  li_description :: "string option"
  li_price :: decimal2
  li_image :: "string option"
  li_displayOrder :: decimal2

record limited_category =
  lc_id :: string
  lc_name :: string
  lc_description :: "string option"
  lc_displayOrder :: decimal2
  lc_menuItems :: "limited_item list"

record limited_restaurant =
  lr_id :: string
  lr_name :: string
  lr_description :: "string option"
  lr_slug :: string
  lr_location :: "string option"
  lr_logo :: "string option"
  lr_coverImage :: "string option"
  lr_isActive :: bool
  lr_menuCategories :: "limited_category list"

datatype getById_result = Full restaurant_with_menu | Limited limited_restaurant

definition limitedItem :: "menu_item \<Rightarrow> limited_item" where
  "limitedItem item =
     \<lparr>li_id = mi_id item, li_name = mi_name item, li_description = mi_description item,
      li_price = mi_price item, li_image = mi_image item,
      li_displayOrder = mi_displayOrder item\<rparr>"

definition limitedCategory :: "category_with_items \<Rightarrow> limited_category" where
  "limitedCategory category =
     \<lparr>lc_id = c_id (cw_category category), lc_name = c_name (cw_category category),
      lc_description = c_description (cw_category category),
      lc_displayOrder = c_displayOrder (cw_category category),
      lc_menuItems = map limitedItem (filter mi_isAvailable (cw_menuItems category))\<rparr>"

definition getById_handler :: "string \<Rightarrow> session_user \<Rightarrow> db \<Rightarrow> getById_result outcome" where
  "getById_handler ident u d =
     (case find (\<lambda>r. r_id r = ident) (restaurants d) of
        None \<Rightarrow> (d, Inl (TRPCError NOT_FOUND ''Restaurant not found''))
      | Some r \<Rightarrow>
          let restaurant =
                \<lparr>rw_restaurant = r,
                 rw_menuCategories =
                   map (\<lambda>c. \<lparr>cw_category = c,
                              cw_menuItems = sort_key mi_displayOrder (categoryItems d c)\<rparr>)
                     (sort_key c_displayOrder (restaurantCategories d r))\<rparr>
          in if r_ownerId r \<noteq> u_id u
             then (d, Inr (Limited
                    \<lparr>lr_id = r_id r, lr_name = r_name r, lr_description = r_description r,
                     lr_slug = r_slug r, lr_location = r_location r, lr_logo = r_logo r,
                     lr_coverImage = r_coverImage r, lr_isActive = r_isActive r,
                     lr_menuCategories = map limitedCategory (rw_menuCategories restaurant)\<rparr>))
             else (d, Inr (Full restaurant)))"

definition getById :: "string \<Rightarrow> session option \<Rightarrow> db \<Rightarrow> getById_result outcome" where
  "getById ident = protectedProcedure (getById_handler ident)"

section \<open>The assistant's chat\<close>

datatype chat_role = User | Assistant

record chat_message =
  cm_role :: chat_role
  cm_content :: string

record chat_input =
  ch_restaurantId :: string
  ch_message :: string
  ch_conversationHistory :: "chat_message list option"

record chat_response =
  cr_response :: string
  cr_restaurantName :: string
  cr_isFallback :: "bool option"

text \<open>\<open>xs.join(sep)\<close>, and a \<open>decimal(10, 2)\<close> value as the driver prints it.\<close>

fun join :: "string \<Rightarrow> string list \<Rightarrow> string" where
  "join sep [] = []"
| "join sep [x] = x"
| "join sep (x # y # ys) = x @ sep @ join sep (y # ys)"

definition show_decimal2 :: "decimal2 \<Rightarrow> string" where
  "show_decimal2 p =
     (if p < 0 then ''-'' else []) @ show_nat (nat \<bar>p\<bar> div 100) @ ''.'' @
     [''0123456789'' ! (nat \<bar>p\<bar> mod 100 div 10), ''0123456789'' ! (nat \<bar>p\<bar> mod 10)]"

text \<open>\<open>x ? f x : ''\<close> on an optional string.\<close>

definition whenPresent :: "string option \<Rightarrow> (string \<Rightarrow> string) \<Rightarrow> string" where
  "whenPresent a f = (case a of None \<Rightarrow> [] | Some x \<Rightarrow> if x = [] then [] else f x)"

text \<open>The bullet that starts a menu line, in UTF-8; and the apostrophe.\<close>

definition bullet :: string where
  "bullet = [char_of (226 :: nat), char_of (128 :: nat), char_of (162 :: nat)]"

definition apostrophe :: string where
  "apostrophe = [char_of (39 :: nat)]"

definition itemLine :: "menu_item \<Rightarrow> string" where
  "itemLine item =
     bullet @ '' '' @ mi_name item @ '': $'' @ show_decimal2 (mi_price item) @
     whenPresent (mi_description item) (\<lambda>x. '' - '' @ x) @
     whenPresent (mi_ingredients item) (\<lambda>x. '' (Ingredients: '' @ x @ '')'') @
     whenPresent (mi_preparationTime item) (\<lambda>x. '' ('' @ x @ '')'')"

definition menuInfo :: "category_with_items list \<Rightarrow> string" where
  "menuInfo categories =
     join ''\<newline>\<newline>''
       (map (\<lambda>category.
               c_name (cw_category category) @ '':\<newline>'' @
               join ''\<newline>'' (map itemLine (cw_menuItems category)))
          categories)"

definition show_role :: "chat_role \<Rightarrow> string" where
  "show_role r = (case r of User \<Rightarrow> ''user'' | Assistant \<Rightarrow> ''assistant'')"

definition systemPrompt :: "restaurant_with_menu \<Rightarrow> chat_input \<Rightarrow> string" where
  "systemPrompt restaurant input =
     ''You are a friendly and helpful virtual waitress for '' @ r_name (rw_restaurant restaurant) @
     ''.\<newline>\<newline>Restaurant Information:\<newline>- Name: '' @ r_name (rw_restaurant restaurant) @
     ''\<newline>- Description: '' @
     js_or (r_description (rw_restaurant restaurant)) ''A wonderful dining establishment'' @
     ''\<newline>- Location: '' @
     js_or (r_location (rw_restaurant restaurant)) ''Visit us for a great meal!'' @
     ''\<newline>\<newline>Available Menu:\<newline>'' @ menuInfo (rw_menuCategories restaurant) @
     ''\<newline>\<newline>Your role is to:\<newline>'' @
     ''1. Help customers with menu questions and recommendations\<newline>'' @
     ''2. Provide information about ingredients, preparation times, and pricing\<newline>'' @
     ''3. Be friendly, welcoming, and professional\<newline>'' @
     ''4. Suggest popular items or combinations\<newline>'' @
     ''5. Answer questions about dietary restrictions and allergens based on the ingredients listed\<newline>'' @
     ''6. Explain menu items in detail when asked\<newline>\<newline>'' @
     ''Important Guidelines:\<newline>'' @
     ''- You CANNOT take orders or process payments. Direct customers to use the ordering system for placing orders.\<newline>'' @
     ''- You can only discuss items that are currently available on the menu.\<newline>'' @
     ''- Be honest about ingredients - if allergen information is not specified, let customers know they should ask the restaurant staff.\<newline>'' @
     ''- Keep responses conversational and helpful, not overly formal.\<newline>'' @
     ''- If you don'' @ apostrophe @ ''t know something, be honest and suggest the customer ask restaurant staff.\<newline>'' @
     ''- Do not make up information about prices, ingredients, or preparation methods that aren'' @ apostrophe @ ''t listed.\<newline>'' @
     ''- Focus on helping customers have a great dining experience.\<newline>\<newline>'' @
     ''Current conversation context:\<newline>'' @
     (case ch_conversationHistory input of
        None \<Rightarrow> []
      | Some history \<Rightarrow>
          join ''\<newline>'' (map (\<lambda>msg. show_role (cm_role msg) @ '': '' @ cm_content msg) history)) @
     ''\<newline>\<newline>Customer'' @ apostrophe @ ''s message: '' @ ch_message input"

definition fallbackResponse :: "string \<Rightarrow> chat_response" where
  "fallbackResponse name =
     \<lparr>cr_response =
        ''I'' @ apostrophe @ ''m sorry, I'' @ apostrophe @
        ''m having trouble connecting right now. I'' @ apostrophe @
        ''m here to help you with questions about '' @ name @ apostrophe @
        ''s menu. Feel free to ask me about any menu items, ingredients, or I can help you make recommendations! For placing orders, please use the ordering system.'',
      cr_restaurantName = name,
      cr_isFallback = Some True\<rparr>"

text \<open>
  The text-generation service is a collaborator: \<open>generate prompt\<close> is the text it returns, or
  \<open>None\<close> when anything inside the \<open>try\<close> throws.
\<close>

definition availableMenu :: "db \<Rightarrow> restaurant \<Rightarrow> restaurant_with_menu" where
  "availableMenu d r =
     \<lparr>rw_restaurant = r,
      rw_menuCategories =
        map (\<lambda>c. \<lparr>cw_category = c,
                   cw_menuItems = filter mi_isAvailable (categoryItems d c)\<rparr>)
          (restaurantCategories d r)\<rparr>"

definition chat_handler ::
  "(string \<Rightarrow> string option) \<Rightarrow> chat_input \<Rightarrow> session_user \<Rightarrow> db \<Rightarrow> chat_response outcome" where
  "chat_handler generate input u d =
     (case find (\<lambda>r. r_id r = ch_restaurantId input) (restaurants d) of
        None \<Rightarrow> (d, Inl (TRPCError NOT_FOUND ''Restaurant not found''))
      | Some r \<Rightarrow>
          if \<not> r_isActive r
          then (d, Inl (TRPCError BAD_REQUEST ''This restaurant is currently not available''))
          else
            let restaurant = availableMenu d r
            in (case generate (systemPrompt restaurant input) of
                  Some text \<Rightarrow>
                    (d, Inr \<lparr>cr_response = text, cr_restaurantName = r_name r,
                             cr_isFallback = None\<rparr>)
                | None \<Rightarrow> (d, Inr (fallbackResponse (r_name r)))))"

definition chat ::
  "(string \<Rightarrow> string option) \<Rightarrow> chat_input \<Rightarrow> session option \<Rightarrow> db \<Rightarrow> chat_response outcome" where
  "chat generate input =
     protectedProcedure
       (\<lambda>u d. if ch_message input = [] then (d, Inl inputError)
              else chat_handler generate input u d)"

section \<open>The storage constraints of the schema\<close>

text \<open>
  A storage that enforces what schema/restaurant.ts declares for the two tables \<open>placeOrder\<close>
  writes: primary keys, the unique order number of at most 50 characters, the foreign keys
  into tables of this file, and the range of \<open>decimal(10, 2)\<close>. A finite number fits such a
  column when it rounds to less than \<open>10 ^ 8\<close> in absolute value at two decimals, that is when
  \<open>200 * \<bar>x\<bar> < 2 * 10 ^ 10 - 1\<close>; the column also holds \<open>NaN\<close>, and no infinity.
\<close>

definition fitsDecimal10_2 :: "jsnum \<Rightarrow> bool" where
  "fitsDecimal10_2 x =
     (case x of
        Fin m e \<Rightarrow>
          if 0 \<le> e then \<bar>m\<bar> * 2 ^ nat e * 200 < 19999999999
          else \<bar>m\<bar> * 200 < 19999999999 * 2 ^ nat (- e)
      | PInf \<Rightarrow> False
      | NInf \<Rightarrow> False
      | NaN \<Rightarrow> True)"

definition schemaStorage :: storage where
  "schemaStorage =
     \<lparr>insertOrderOk = (\<lambda>d row.
        o_id row \<notin> set (map o_id (orders d)) \<and>
        o_orderNumber row \<notin> set (map o_orderNumber (orders d)) \<and>
        length (o_orderNumber row) \<le> 50 \<and>
        fitsDecimal10_2 (o_totalAmount row) \<and>
        o_restaurantId row \<in> set (map r_id (restaurants d))),
      insertOrderItemOk = (\<lambda>d row.
        oi_id row \<notin> set (map oi_id (orderItems d)) \<and>
        fitsDecimal10_2 (oi_quantity row) \<and>
        fitsDecimal10_2 (oi_unitPrice row) \<and>
        fitsDecimal10_2 (oi_totalPrice row) \<and>
        oi_orderId row \<in> set (map o_id (orders d)) \<and>
        oi_menuItemId row \<in> set (map mi_id (menuItems d)))\<rparr>"

section \<open>What the specification says, in its own words\<close>

text \<open>The transition table of the status state machine, as the specification lists it.\<close>

definition transitionTable :: "(order_status \<times> order_status) set" where
  "transitionTable =
     {(PENDING, PREPARING), (PENDING, CANCELLED),
      (PREPARING, READY), (PREPARING, CANCELLED),
      (READY, COMPLETED), (READY, CANCELLED)}"



section \<open>A worked scenario\<close>

text \<open>
  The scenario of the specification: an owner with the restaurant \<open>cafe1\<close>, its category
  \<open>Mains\<close>, a burger at 9.99, and a customer; beside the burger, two cheap items and one that
  is switched off. A second restaurant is inactive and owns one item.
\<close>

definition sessionOf :: "session_user \<Rightarrow> session option" where
  "sessionOf u = Some \<lparr>s_user = Some u\<rparr>"

definition owner1 :: session_user where
  "owner1 = \<lparr>u_id = ''owner-1'', u_name = ''Olive'', u_email = ''olive@cafe1.test'',
             u_role = Some ''OWNER''\<rparr>"

definition customer1 :: session_user where
  "customer1 = \<lparr>u_id = ''cust-1'', u_name = ''Carl'', u_email = ''carl@mail.test'',
                u_role = None\<rparr>"

definition cafe :: restaurant where
  "cafe = \<lparr>r_id = ''R'', r_name = ''Cafe One'', r_description = None, r_slug = ''cafe1'',
           r_location = Some ''Main Street 1'', r_phone = Some ''555-0100'',
           r_email = Some ''owner@cafe1.test'', r_logo = None, r_coverImage = None,
           r_isActive = True, r_ownerId = ''owner-1'', r_createdAt = 1000, r_updatedAt = 1000\<rparr>"

definition mains :: menu_category where
  "mains = \<lparr>c_id = ''C'', c_name = ''Mains'', c_description = None, c_displayOrder = 0,
            c_restaurantId = ''R'', c_createdAt = 1000, c_updatedAt = 1000\<rparr>"

definition menuEntry :: "string \<Rightarrow> string \<Rightarrow> decimal2 \<Rightarrow> bool \<Rightarrow> menu_item" where
  "menuEntry ident name price available =
     \<lparr>mi_id = ident, mi_name = name, mi_description = None, mi_price = price,
      mi_image = None, mi_isAvailable = available, mi_displayOrder = 0, mi_category = None,
      mi_ingredients = None, mi_preparationTime = None, mi_categoryId = ''C'',
      mi_restaurantId = ''R'', mi_createdAt = 1000, mi_updatedAt = 1000\<rparr>"

definition bistro :: restaurant where
  "bistro = \<lparr>r_id = ''R2'', r_name = ''Bistro Two'', r_description = None, r_slug = ''bistro2'',
             r_location = None, r_phone = Some ''555-0200'', r_email = None, r_logo = None,
             r_coverImage = None, r_isActive = False, r_ownerId = ''owner-2'',
             r_createdAt = 2000, r_updatedAt = 2000\<rparr>"

definition stew :: menu_item where
  "stew = (menuEntry ''stew'' ''Stew'' 700 True)\<lparr>mi_categoryId := ''C2'', mi_restaurantId := ''R2''\<rparr>"

definition db0 :: db where
  "db0 = \<lparr>restaurants = [cafe, bistro], menuCategories = [mains],
          menuItems = [menuEntry ''burger'' ''Burger'' 999 True,
                       menuEntry ''mint'' ''Mint'' 10 True,
                       menuEntry ''gum'' ''Gum'' 20 True,
                       menuEntry ''pie'' ''Pie'' 450 False,
                       stew],
          orders = [], orderItems = []\<rparr>"

definition rt0 :: runtime where
  "rt0 = \<lparr>nanoid = (\<lambda>k. ''id'' @ show_nat k), dateNow = 1700000000000,
          randomSuffix = ''K3J9X0QZ7'', isEmail = (\<lambda>e. CHR ''@'' \<in> set e)\<rparr>"

definition cartLine :: "string \<Rightarrow> jsnum \<Rightarrow> cart_item" where
  "cartLine ident quantity =
     \<lparr>ci_menuItemId = ident, ci_quantity = quantity, ci_specialInstructions = None\<rparr>"

definition cartFor :: "string \<Rightarrow> cart_item list \<Rightarrow> placeOrder_input" where
  "cartFor rid items =
     \<lparr>pi_restaurantId = rid, pi_items = items, pi_customerName = None,
      pi_customerEmail = None, pi_customerPhone = None, pi_notes = None\<rparr>"

text \<open>The order header that the scenario's calls create, for a given total.\<close>

definition header0 :: "string \<Rightarrow> jsnum \<Rightarrow> order" where
  "header0 ident amount =
     \<lparr>o_id = ident, o_orderNumber = ''ORD-1700000000000-K3J9X0QZ7'', o_totalAmount = amount,
      o_status = PENDING, o_customerName = Some ''Carl'', o_customerEmail = Some ''carl@mail.test'',
      o_customerPhone = None, o_notes = None, o_estimatedDeliveryTime = None,
      o_actualDeliveryTime = None, o_restaurantId = ''R'', o_customerId = ''cust-1'',
      o_createdAt = 1700000000000, o_updatedAt = 1700000000000\<rparr>"

text \<open>The item row of the scenario's first order (two burgers), and the database after it.\<close>

definition burgerRow :: order_item where
  "burgerRow =
     \<lparr>oi_id = ''id0'', oi_quantity = js_int 2, oi_unitPrice = Number 999,
      oi_totalPrice = Number 1998, oi_specialInstructions = None, oi_orderId = ''id1'',
      oi_menuItemId = ''burger'', oi_createdAt = 1700000000000, oi_updatedAt = 1700000000000\<rparr>"

definition db1 :: db where
  "db1 = db0\<lparr>orders := [header0 ''id1'' (Number 1998)], orderItems := [burgerRow]\<rparr>"

text \<open>The same order carrying a note of the customer, and what \<open>cancelOrder\<close> makes of it.\<close>

definition notedOrder :: order where
  "notedOrder = (header0 ''id1'' (Number 1998))\<lparr>o_notes := Some ''no onions''\<rparr>"

definition cancelledOrder :: order where
  "cancelledOrder =
     notedOrder\<lparr>o_status := CANCELLED, o_notes := Some ''Cancelled: running late'',
                  o_updatedAt := 1700000000000\<rparr>"

definition db2 :: db where
  "db2 = db0\<lparr>orders := [notedOrder]\<rparr>"

text \<open>The first order once the owner has moved it to \<open>PREPARING\<close>.\<close>

definition db3 :: db where
  "db3 = db1\<lparr>orders := [(header0 ''id1'' (Number 1998))
                            \<lparr>o_status := PREPARING, o_updatedAt := 1700000000000\<rparr>]\<rparr>"

section \<open>Auxiliary facts\<close>

lemma find_map_same_key:
  assumes "\<And>x. P (f x) = P x"
  shows "find P (map f xs) = map_option f (find P xs)"
  using assms by (induction xs) auto

lemma find_Some_holds: "find P xs = Some x \<Longrightarrow> P x \<and> x \<in> set xs"
  by (induction xs) (auto split: if_splits)

lemma isAuthed_user: "isAuthed (Some \<lparr>s_user = Some u\<rparr>) = Inr u"
  by (simp add: isAuthed_def)

lemma isOwner_user:
  "isOwner (Some \<lparr>s_user = Some u\<rparr>) =
     (if u_role u \<noteq> Some ''OWNER''
      then Inl (TRPCError FORBIDDEN ''You must be a restaurant owner to access this resource'')
      else Inr u)"
  by (simp add: isOwner_def)

lemma validTransitions_table:
  "new \<in> set (validTransitions cur) \<longleftrightarrow> (cur, new) \<in> transitionTable"
  by (cases cur; cases new) (simp_all add: validTransitions_def transitionTable_def)

subsection \<open>The scenario, evaluated\<close>

lemmas jsnum_eval =
  round64_def ilog2_def roundHalfEven_def signedInf_def Number_def js_int_def Let_def bitlen.simps

lemmas scenario_defs =
  db0_def db1_def db2_def rt0_def cafe_def bistro_def mains_def menuEntry_def stew_def
  customer1_def owner1_def sessionOf_def cartFor_def cartLine_def header0_def burgerRow_def
  notedOrder_def cancelledOrder_def db3_def

lemma show_nat_now: "show_nat 1700000000000 = ''1700000000000''"
  by (simp add: show_nat.simps)

lemma show_nat_small:
  "show_nat 0 = ''0''" "show_nat (Suc 0) = ''1''" "show_nat (Suc (Suc 0)) = ''2''"
  by (simp_all add: show_nat.simps)

lemma num_zero: "js_int 0 = Fin 0 0"
  by (simp add: jsnum_eval)

lemma num_one: "js_int 1 = Fin 4503599627370496 (- 52)"
  by (simp add: jsnum_eval)

lemma num_two: "js_int 2 = Fin 4503599627370496 (- 51)"
  by (simp add: jsnum_eval)





lemma two_ge_one: "js_ge (js_int 2) (js_int 1)"
  by (simp add: num_two num_one)


lemmas placeOrder_eval =
  placeOrder_def protectedProcedure_def isAuthed_def placeOrder_inputOk_def
  placeOrder_handler_def newOrderRow_def orderItemRow_def schemaStorage_def js_or_def
  failedToCreate_def Let_def show_nat_now show_nat_small


lemma first_order_found:
  "find (\<lambda>ord. o_id ord = ''id1'') (orders db1) = Some (header0 ''id1'' (Number 1998))"
  by (simp add: scenario_defs)

section \<open>The authorization gate\<close>

text \<open>
  Claim C7. Every owner-only procedure is \<open>ownerProcedure\<close> applied to its handler. Whatever
  the handler and whatever the database: a call with no session, or with a session that has
  no user, fails \<open>UNAUTHORIZED\<close>; a call by an authenticated user whose role is not
  \<open>"OWNER"\<close> fails \<open>FORBIDDEN\<close>. In both cases the handler is never run and the database is
  returned as it was, so the outcome does not depend on any entity existing.
\<close>

theorem ownerProcedure_gate:
  "((s = None \<or> (\<exists>ss. s = Some ss \<and> s_user ss = None)) \<longrightarrow>
      ownerProcedure handler s d =
        (d, Inl (TRPCError UNAUTHORIZED ''You must be logged in to access this resource''))) \<and>
   (s = Some \<lparr>s_user = Some u\<rparr> \<and> u_role u \<noteq> Some ''OWNER'' \<longrightarrow>
      ownerProcedure handler s d =
        (d, Inl (TRPCError FORBIDDEN ''You must be a restaurant owner to access this resource'')))"
  by (auto simp: ownerProcedure_def isAuthed_def isOwner_def)

text \<open>
  The gate at work on \<open>updateStatus\<close>: no session, then the customer of the scenario asking
  for an order that exists and for one that does not.
\<close>

theorem ownerProcedure_gate_witness:
  "updateStatus rt0 \<lparr>us_id = ''id1'', us_status = PREPARING\<rparr> None db1 =
     (db1, Inl (TRPCError UNAUTHORIZED ''You must be logged in to access this resource'')) \<and>
   sessionOf customer1 = Some \<lparr>s_user = Some customer1\<rparr> \<and>
   u_role customer1 \<noteq> Some ''OWNER'' \<and>
   updateStatus rt0 \<lparr>us_id = ''id1'', us_status = PREPARING\<rparr> (sessionOf customer1) db1 =
     (db1, Inl (TRPCError FORBIDDEN ''You must be a restaurant owner to access this resource'')) \<and>
   updateStatus rt0 \<lparr>us_id = ''no such order'', us_status = PREPARING\<rparr> (sessionOf customer1) db1 =
     (db1, Inl (TRPCError FORBIDDEN ''You must be a restaurant owner to access this resource''))"
proof -
  have role: "u_role customer1 \<noteq> Some ''OWNER''"
    by (simp add: customer1_def)
  have sess: "sessionOf customer1 = Some \<lparr>s_user = Some customer1\<rparr>"
    by (simp add: sessionOf_def)
  note gate = ownerProcedure_gate [of _ _ db1 customer1]
  from gate [of None "updateStatus_handler rt0 \<lparr>us_id = ''id1'', us_status = PREPARING\<rparr>"]
  have a: "updateStatus rt0 \<lparr>us_id = ''id1'', us_status = PREPARING\<rparr> None db1 =
             (db1, Inl (TRPCError UNAUTHORIZED ''You must be logged in to access this resource''))"
    by (simp add: updateStatus_def)
  from gate [of "sessionOf customer1"
      "updateStatus_handler rt0 \<lparr>us_id = ''id1'', us_status = PREPARING\<rparr>"] role sess
  have b: "updateStatus rt0 \<lparr>us_id = ''id1'', us_status = PREPARING\<rparr> (sessionOf customer1) db1 =
             (db1, Inl (TRPCError FORBIDDEN
                          ''You must be a restaurant owner to access this resource''))"
    by (simp add: updateStatus_def)
  from gate [of "sessionOf customer1"
      "updateStatus_handler rt0 \<lparr>us_id = ''no such order'', us_status = PREPARING\<rparr>"] role sess
  have c: "updateStatus rt0 \<lparr>us_id = ''no such order'', us_status = PREPARING\<rparr>
             (sessionOf customer1) db1 =
             (db1, Inl (TRPCError FORBIDDEN
                          ''You must be a restaurant owner to access this resource''))"
    by (simp add: updateStatus_def)
  from a b c role sess show ?thesis by simp
qed

section \<open>The status state machine\<close>

text \<open>
  Claim C3. Let the caller be an authenticated owner, the order exist and belong to a
  restaurant the caller owns. Then \<open>updateStatus\<close> succeeds exactly when the pair of the
  current and the requested status is in the transition table
  \<open>PENDING \<rightarrow> {PREPARING, CANCELLED}\<close>, \<open>PREPARING \<rightarrow> {READY, CANCELLED}\<close>,
  \<open>READY \<rightarrow> {COMPLETED, CANCELLED}\<close>, nothing from \<open>COMPLETED\<close> or \<open>CANCELLED\<close>: it then stores
  the new status (and stamps the delivery time on \<open>COMPLETED\<close>). For every other pair it
  fails \<open>BAD_REQUEST\<close> and the database is unchanged.
\<close>

theorem updateStatus_transitions:
  assumes "s = Some \<lparr>s_user = Some u\<rparr>" and "u_role u = Some ''OWNER''"
    and "find (\<lambda>ord. o_id ord = us_id input) (orders d) = Some existingOrder"
    and "orderRestaurant d existingOrder = Some restaurant"
    and "r_ownerId restaurant = u_id u"
  shows "if (o_status existingOrder, us_status input) \<in> transitionTable
         then updateStatus rt input s d =
                (d\<lparr>orders :=
                     map (\<lambda>ord. if o_id ord = us_id input
                                then ord\<lparr>o_status := us_status input,
                                         o_updatedAt := dateNow rt,
                                         o_actualDeliveryTime :=
                                           (if us_status input = COMPLETED then Some (dateNow rt)
                                            else o_actualDeliveryTime ord)\<rparr>
                                else ord) (orders d)\<rparr>,
                 Inr (Some (existingOrder\<lparr>o_status := us_status input,
                    o_updatedAt := dateNow rt,
                    o_actualDeliveryTime :=
                      (if us_status input = COMPLETED then Some (dateNow rt)
                       else o_actualDeliveryTime existingOrder)\<rparr>)))
         else updateStatus rt input s d =
                (d, Inl (TRPCError BAD_REQUEST
                   (''Invalid status transition from '' @ show_status (o_status existingOrder)
                      @ '' to '' @ show_status (us_status input))))"
proof -
  have key: "o_id existingOrder = us_id input"
    using assms(3) by (auto dest: find_Some_holds)
  show ?thesis
    using assms key
    by (simp add: updateStatus_def ownerProcedure_def isAuthed_user isOwner_user
        updateStatus_handler_def validTransitions_table find_map_same_key Let_def)
qed

text \<open>
  The owner of the scenario moves the first order from \<open>PENDING\<close> to \<open>PREPARING\<close>, and is
  refused \<open>PENDING \<rightarrow> READY\<close>.
\<close>

theorem updateStatus_transitions_witness:
  "sessionOf owner1 = Some \<lparr>s_user = Some owner1\<rparr> \<and>
   u_role owner1 = Some ''OWNER'' \<and>
   find (\<lambda>ord. o_id ord = ''id1'') (orders db1) = Some (header0 ''id1'' (Number 1998)) \<and>
   orderRestaurant db1 (header0 ''id1'' (Number 1998)) = Some cafe \<and>
   r_ownerId cafe = u_id owner1 \<and>
   snd (updateStatus rt0 \<lparr>us_id = ''id1'', us_status = PREPARING\<rparr> (sessionOf owner1) db1) =
     Inr (Some ((header0 ''id1'' (Number 1998))
                  \<lparr>o_status := PREPARING, o_updatedAt := 1700000000000\<rparr>)) \<and>
   updateStatus rt0 \<lparr>us_id = ''id1'', us_status = READY\<rparr> (sessionOf owner1) db1 =
     (db1, Inl (TRPCError BAD_REQUEST ''Invalid status transition from PENDING to READY''))"
proof -
  have h1: "sessionOf owner1 = Some \<lparr>s_user = Some owner1\<rparr>"
    by (simp add: sessionOf_def)
  have h2: "u_role owner1 = Some ''OWNER''"
    by (simp add: owner1_def)
  have h3: "find (\<lambda>ord. o_id ord = us_id \<lparr>us_id = ''id1'', us_status = st\<rparr>) (orders db1) =
              Some (header0 ''id1'' (Number 1998))" for st
    by (simp add: first_order_found)
  have h4: "orderRestaurant db1 (header0 ''id1'' (Number 1998)) = Some cafe"
    by (simp add: orderRestaurant_def scenario_defs)
  have h5: "r_ownerId cafe = u_id owner1"
    by (simp add: cafe_def owner1_def)
  have st: "o_status (header0 ''id1'' (Number 1998)) = PENDING"
    by (simp add: header0_def)
  from updateStatus_transitions [OF h1 h2 h3 h4 h5, of PREPARING rt0]
  have a: "snd (updateStatus rt0 \<lparr>us_id = ''id1'', us_status = PREPARING\<rparr> (sessionOf owner1) db1) =
             Inr (Some ((header0 ''id1'' (Number 1998))
                          \<lparr>o_status := PREPARING, o_updatedAt := 1700000000000\<rparr>))"
    by (simp add: st transitionTable_def rt0_def header0_def)
  from updateStatus_transitions [OF h1 h2 h3 h4 h5, of READY rt0]
  have b: "updateStatus rt0 \<lparr>us_id = ''id1'', us_status = READY\<rparr> (sessionOf owner1) db1 =
             (db1, Inl (TRPCError BAD_REQUEST ''Invalid status transition from PENDING to READY''))"
    by (simp add: st transitionTable_def show_status_def)
  from h1 h2 h4 h5 a b first_order_found show ?thesis by simp
qed

section \<open>Cancelling an order\<close>

text \<open>
  Claim C4, as amended. For an authenticated caller and an existing order, \<open>cancelOrder\<close>
  fails \<open>FORBIDDEN\<close> when the caller is not the order's customer; otherwise it fails
  \<open>BAD_REQUEST\<close> when the status is not \<open>PENDING\<close>; otherwise it sets the status to
  \<open>CANCELLED\<close> and replaces the order's notes by \<open>Cancelled: <reason>\<close>, or by
  \<open>Cancelled by customer\<close> when no reason or an empty one is supplied.
\<close>

theorem cancelOrder_rules:
  assumes "s = Some \<lparr>s_user = Some u\<rparr>"
    and "find (\<lambda>ord. o_id ord = co_id input) (orders d) = Some existingOrder"
  shows "cancelOrder rt input s d =
           (if o_customerId existingOrder \<noteq> u_id u
            then (d, Inl (TRPCError FORBIDDEN ''You can only cancel your own orders''))
            else if o_status existingOrder \<noteq> PENDING
            then (d, Inl (TRPCError BAD_REQUEST ''Only pending orders can be cancelled''))
            else (d\<lparr>orders :=
                      map (\<lambda>ord. if o_id ord = co_id input
                                 then ord\<lparr>o_status := CANCELLED,
                                          o_notes := Some (cancelNote (co_reason input)),
                                          o_updatedAt := dateNow rt\<rparr>
                                 else ord) (orders d)\<rparr>,
                  Inr (Some (existingOrder\<lparr>o_status := CANCELLED,
                               o_notes := Some (cancelNote (co_reason input)),
                               o_updatedAt := dateNow rt\<rparr>)))) \<and>
         cancelNote (co_reason input) =
           (case co_reason input of
              None \<Rightarrow> ''Cancelled by customer''
            | Some r \<Rightarrow> if r = [] then ''Cancelled by customer'' else ''Cancelled: '' @ r)"
proof -
  have key: "o_id existingOrder = co_id input"
    using assms(2) by (auto dest: find_Some_holds)
  show ?thesis
    using assms key
    by (simp add: cancelOrder_def protectedProcedure_def isAuthed_user
        cancelOrder_handler_def find_map_same_key Let_def cancelNote_def split: option.splits)
qed

text \<open>
  The customer of the scenario cancels the pending order; the owner, who is not its
  customer, is refused; and so is the customer once the order is being prepared.
\<close>

theorem cancelOrder_rules_witness:
  "sessionOf customer1 = Some \<lparr>s_user = Some customer1\<rparr> \<and>
   find (\<lambda>ord. o_id ord = ''id1'') (orders db1) = Some (header0 ''id1'' (Number 1998)) \<and>
   snd (cancelOrder rt0 \<lparr>co_id = ''id1'', co_reason = None\<rparr> (sessionOf customer1) db1) =
     Inr (Some ((header0 ''id1'' (Number 1998))
                  \<lparr>o_status := CANCELLED, o_notes := Some ''Cancelled by customer'',
                   o_updatedAt := 1700000000000\<rparr>)) \<and>
   cancelOrder rt0 \<lparr>co_id = ''id1'', co_reason = None\<rparr> (sessionOf owner1) db1 =
     (db1, Inl (TRPCError FORBIDDEN ''You can only cancel your own orders'')) \<and>
   cancelOrder rt0 \<lparr>co_id = ''id1'', co_reason = None\<rparr> (sessionOf customer1) db3 =
     (db3, Inl (TRPCError BAD_REQUEST ''Only pending orders can be cancelled''))"
proof -
  have h1: "sessionOf u = Some \<lparr>s_user = Some u\<rparr>" for u
    by (simp add: sessionOf_def)
  have h2: "find (\<lambda>ord. o_id ord = co_id \<lparr>co_id = ''id1'', co_reason = None\<rparr>) (orders db1) =
              Some (header0 ''id1'' (Number 1998))"
    by (simp add: first_order_found)
  from cancelOrder_rules [OF h1 [of customer1] h2, of rt0]
  have a: "snd (cancelOrder rt0 \<lparr>co_id = ''id1'', co_reason = None\<rparr> (sessionOf customer1) db1) =
             Inr (Some ((header0 ''id1'' (Number 1998))
                          \<lparr>o_status := CANCELLED, o_notes := Some ''Cancelled by customer'',
                           o_updatedAt := 1700000000000\<rparr>))"
    by (simp add: header0_def customer1_def rt0_def)
  from cancelOrder_rules [OF h1 [of owner1] h2, of rt0]
  have b: "cancelOrder rt0 \<lparr>co_id = ''id1'', co_reason = None\<rparr> (sessionOf owner1) db1 =
             (db1, Inl (TRPCError FORBIDDEN ''You can only cancel your own orders''))"
    by (simp add: header0_def owner1_def)
  have h3: "find (\<lambda>ord. o_id ord = co_id \<lparr>co_id = ''id1'', co_reason = None\<rparr>) (orders db3) =
              Some ((header0 ''id1'' (Number 1998))
                      \<lparr>o_status := PREPARING, o_updatedAt := 1700000000000\<rparr>)"
    by (simp add: db3_def header0_def)
  from cancelOrder_rules [OF h1 [of customer1] h3, of rt0]
  have c: "cancelOrder rt0 \<lparr>co_id = ''id1'', co_reason = None\<rparr> (sessionOf customer1) db3 =
             (db3, Inl (TRPCError BAD_REQUEST ''Only pending orders can be cancelled''))"
    by (simp add: header0_def customer1_def)
  from h1 a b c first_order_found show ?thesis by simp
qed

text \<open>
  Claim C4 as stated says that the reason is appended as a note. The order of \<open>db2\<close> carries
  the note \<open>no onions\<close>; after the customer cancels it with the reason \<open>running late\<close> its
  notes are \<open>Cancelled: running late\<close>, which does not extend the note it had.
\<close>

theorem cancelOrder_overwrites_notes:
  "cancelOrder rt0 \<lparr>co_id = ''id1'', co_reason = Some ''running late''\<rparr> (sessionOf customer1) db2 =
     (db2\<lparr>orders := [cancelledOrder]\<rparr>, Inr (Some cancelledOrder)) \<and>
   orders db2 = [notedOrder] \<and>
   o_notes notedOrder = Some ''no onions'' \<and>
   o_notes cancelledOrder = Some ''Cancelled: running late'' \<and>
   \<not> prefix ''no onions'' ''Cancelled: running late''"
  by (simp add: cancelOrder_def protectedProcedure_def isAuthed_def cancelOrder_handler_def
      cancelNote_def scenario_defs Let_def)

section \<open>Placing an order\<close>

subsection \<open>The three loops\<close>

lemma checkItems_first:
  assumes "checkItems d rid pre = None"
  shows "checkItems d rid (pre @ item # post) = checkItems d rid (item # post)"
  using assms by (induction pre) (auto split: option.splits if_splits)





subsection \<open>Rejections\<close>

text \<open>
  Claim C6. For an authenticated caller and an input that passes its schema, \<open>placeOrder\<close>
  fails \<open>NOT_FOUND\<close> when the restaurant is missing or inactive. With an active restaurant,
  the items are checked in cart order, and the first item that fails its check decides the
  outcome: \<open>NOT_FOUND\<close> when its id is unknown, \<open>BAD_REQUEST\<close> when it is unavailable,
  \<open>BAD_REQUEST\<close> when it belongs to another restaurant. Nothing is written in any of these
  cases.
\<close>

theorem placeOrder_rejections:
  assumes "s = Some \<lparr>s_user = Some u\<rparr>" and "placeOrder_inputOk rt input"
  shows
    "(find (\<lambda>r. r_id r = pi_restaurantId input) (restaurants d) = None \<or>
      (\<exists>r. find (\<lambda>r. r_id r = pi_restaurantId input) (restaurants d) = Some r \<and> \<not> r_isActive r)
      \<longrightarrow> placeOrder st rt input s d =
            (d, Inl (TRPCError NOT_FOUND ''Restaurant not found or not available''))) \<and>
     ((\<exists>r. find (\<lambda>r. r_id r = pi_restaurantId input) (restaurants d) = Some r \<and> r_isActive r) \<and>
      pi_items input = pre @ item # post \<and> checkItems d (pi_restaurantId input) pre = None
      \<longrightarrow>
        (case find (\<lambda>m. mi_id m = ci_menuItemId item) (menuItems d) of
           None \<Rightarrow>
             placeOrder st rt input s d =
               (d, Inl (TRPCError NOT_FOUND (''Menu item not found: '' @ ci_menuItemId item)))
         | Some menuItem \<Rightarrow>
             (\<not> mi_isAvailable menuItem \<longrightarrow>
                placeOrder st rt input s d =
                  (d, Inl (TRPCError BAD_REQUEST
                             (''Menu item is not available: '' @ mi_name menuItem)))) \<and>
             (mi_isAvailable menuItem \<and> mi_restaurantId menuItem \<noteq> pi_restaurantId input \<longrightarrow>
                placeOrder st rt input s d =
                  (d, Inl (TRPCError BAD_REQUEST
                             (''Menu item does not belong to this restaurant: ''
                                @ mi_name menuItem))))))"
  using assms
  by (auto simp: placeOrder_def protectedProcedure_def isAuthed_user placeOrder_handler_def
      checkItems_first split: option.splits)

text \<open>
  The customer of the scenario orders from a restaurant that does not exist, from the
  inactive one, and from the active one with a second item that is unknown, switched off, or the
  other restaurant's.
\<close>

theorem placeOrder_rejections_witness:
  "sessionOf customer1 = Some \<lparr>s_user = Some customer1\<rparr> \<and>
   placeOrder_inputOk rt0 (cartFor ''R'' [cartLine ''burger'' (js_int 2), cartLine ''pie'' (js_int 2)]) \<and>
   placeOrder schemaStorage rt0
       (cartFor ''nowhere'' [cartLine ''burger'' (js_int 2), cartLine ''pie'' (js_int 2)])
       (sessionOf customer1) db0 =
     (db0, Inl (TRPCError NOT_FOUND ''Restaurant not found or not available'')) \<and>
   placeOrder schemaStorage rt0
       (cartFor ''R2'' [cartLine ''burger'' (js_int 2), cartLine ''stew'' (js_int 2)])
       (sessionOf customer1) db0 =
     (db0, Inl (TRPCError NOT_FOUND ''Restaurant not found or not available'')) \<and>
   placeOrder schemaStorage rt0
       (cartFor ''R'' [cartLine ''burger'' (js_int 2), cartLine ''ghost'' (js_int 2)])
       (sessionOf customer1) db0 =
     (db0, Inl (TRPCError NOT_FOUND ''Menu item not found: ghost'')) \<and>
   placeOrder schemaStorage rt0
       (cartFor ''R'' [cartLine ''burger'' (js_int 2), cartLine ''pie'' (js_int 2)])
       (sessionOf customer1) db0 =
     (db0, Inl (TRPCError BAD_REQUEST ''Menu item is not available: Pie'')) \<and>
   placeOrder schemaStorage rt0
       (cartFor ''R'' [cartLine ''burger'' (js_int 2), cartLine ''stew'' (js_int 2)])
       (sessionOf customer1) db0 =
     (db0, Inl (TRPCError BAD_REQUEST ''Menu item does not belong to this restaurant: Stew''))"
proof -
  have sess: "sessionOf customer1 = Some \<lparr>s_user = Some customer1\<rparr>"
    by (simp add: sessionOf_def)
  have ok: "placeOrder_inputOk rt0 (cartFor rid [cartLine a (js_int 2), cartLine b (js_int 2)])"
    for rid a b
    by (simp add: placeOrder_inputOk_def cartFor_def cartLine_def two_ge_one)
  note rej = placeOrder_rejections [OF sess ok, where d = db0 and st = schemaStorage]
  have pre: "checkItems db0 ''R'' [cartLine ''burger'' (js_int 2)] = None"
    by (simp add: scenario_defs)
  have cart: "pi_items (cartFor rid [x, y]) = [x] @ y # []" "pi_restaurantId (cartFor rid xs) = rid"
    for rid x y xs
    by (simp_all add: cartFor_def)
  from rej [of "''nowhere''" "''burger''" "''pie''"]
  have a: "placeOrder schemaStorage rt0
             (cartFor ''nowhere'' [cartLine ''burger'' (js_int 2), cartLine ''pie'' (js_int 2)])
             (sessionOf customer1) db0 =
           (db0, Inl (TRPCError NOT_FOUND ''Restaurant not found or not available''))"
    by (simp add: cart) (simp add: scenario_defs)
  from rej [of "''R2''" "''burger''" "''stew''"]
  have b: "placeOrder schemaStorage rt0
             (cartFor ''R2'' [cartLine ''burger'' (js_int 2), cartLine ''stew'' (js_int 2)])
             (sessionOf customer1) db0 =
           (db0, Inl (TRPCError NOT_FOUND ''Restaurant not found or not available''))"
    by (simp add: cart) (simp add: scenario_defs)
  have active: "\<exists>r. find (\<lambda>r. r_id r = ''R'') (restaurants db0) = Some r \<and> r_isActive r"
    by (simp add: scenario_defs)
  from rej [THEN conjunct2, rule_format, of "''R''" "''burger''" "''ghost''"
      "[cartLine ''burger'' (js_int 2)]" "cartLine ''ghost'' (js_int 2)" "[]"] active pre
  have c: "placeOrder schemaStorage rt0
             (cartFor ''R'' [cartLine ''burger'' (js_int 2), cartLine ''ghost'' (js_int 2)])
             (sessionOf customer1) db0 =
           (db0, Inl (TRPCError NOT_FOUND ''Menu item not found: ghost''))"
    by (simp add: cart) (simp add: scenario_defs)
  from rej [THEN conjunct2, rule_format, of "''R''" "''burger''" "''pie''"
      "[cartLine ''burger'' (js_int 2)]" "cartLine ''pie'' (js_int 2)" "[]"] active pre
  have e: "placeOrder schemaStorage rt0
             (cartFor ''R'' [cartLine ''burger'' (js_int 2), cartLine ''pie'' (js_int 2)])
             (sessionOf customer1) db0 =
           (db0, Inl (TRPCError BAD_REQUEST ''Menu item is not available: Pie''))"
    by (simp add: cart) (simp add: scenario_defs)
  from rej [THEN conjunct2, rule_format, of "''R''" "''burger''" "''stew''"
      "[cartLine ''burger'' (js_int 2)]" "cartLine ''stew'' (js_int 2)" "[]"] active pre
  have f: "placeOrder schemaStorage rt0
             (cartFor ''R'' [cartLine ''burger'' (js_int 2), cartLine ''stew'' (js_int 2)])
             (sessionOf customer1) db0 =
           (db0, Inl (TRPCError BAD_REQUEST
                        ''Menu item does not belong to this restaurant: Stew''))"
    by (simp add: cart) (simp add: scenario_defs)
  from sess ok a b c e f show ?thesis by simp
qed

subsection \<open>The total of an order and its rows\<close>




subsection \<open>The arithmetic of the total\<close>



lemma num_10: "Number 10 = Fin 7205759403792794 (- 56)"
  by (simp add: jsnum_eval)

lemma num_20: "Number 20 = Fin 7205759403792794 (- 55)"
  by (simp add: jsnum_eval)







lemma fits_mint_gum:
  "fitsDecimal10_2 (Number 10)" "fitsDecimal10_2 (Number 20)" "fitsDecimal10_2 (js_int 1)"
  "fitsDecimal10_2 (Fin 5404319552844596 (- 54))"
  by (simp_all add: num_10 num_20 num_one fitsDecimal10_2_def)


subsection \<open>A header without its items\<close>

lemma num_big: "js_int 100000000 = Fin 6710886400000000 (- 26)"
  by (simp add: jsnum_eval)

lemma num_million: "js_int 10000000 = Fin 5368709120000000 (- 29)"
  by (simp add: jsnum_eval)

lemma big_line: "js_mul (Number 10) (js_int 100000000) = js_int 10000000"
  by (simp add: num_10 num_big num_million) (simp add: jsnum_eval)

lemma big_sum: "js_add (js_int 0) (js_int 10000000) = js_int 10000000"
  by (simp add: num_zero num_million) (simp add: jsnum_eval)

lemma big_ge_one: "js_ge (js_int 100000000) (js_int 1)"
  by (simp add: num_big num_one)

lemma fits_big:
  "fitsDecimal10_2 (js_int 10000000)" "\<not> fitsDecimal10_2 (js_int 100000000)"
  by (simp_all add: num_big num_million fitsDecimal10_2_def)

text \<open>
  Claim C1 says that the header and its items are stored as one unit. The code announces a
  transaction in a comment and then issues the inserts one by one. A cart of
  \<open>100000000\<close> mints at 0.10 passes the input schema and gives the total \<open>10000000\<close>, which
  fits the header's column; the quantity does not fit \<open>decimal(10, 2)\<close>, so the storage
  refuses the item row. The call fails with \<open>INTERNAL_SERVER_ERROR\<close>, and the header stays
  stored with no item.
\<close>

theorem placeOrder_header_without_items:
  "placeOrder schemaStorage rt0 (cartFor ''R'' [cartLine ''mint'' (js_int 100000000)])
     (sessionOf customer1) db0 =
     (db0\<lparr>orders := [header0 ''id1'' (js_int 10000000)]\<rparr>,
      Inl (TRPCError INTERNAL_SERVER_ERROR ''Failed to create order'')) \<and>
   orderItems (db0\<lparr>orders := [header0 ''id1'' (js_int 10000000)]\<rparr>) = []"
  by (simp add: placeOrder_eval scenario_defs big_ge_one big_line big_sum fits_big fits_mint_gum)

section \<open>Reading a restaurant\<close>

lemma restaurantCategories_frame:
  "restaurantCategories (d\<lparr>restaurants := rs\<rparr>) (r\<lparr>r_phone := p, r_email := e\<rparr>) =
     restaurantCategories d r"
  by (simp add: restaurantCategories_def)

lemma categoryItems_frame: "categoryItems (d\<lparr>restaurants := rs\<rparr>) c = categoryItems d c"
  by (simp add: categoryItems_def)

text \<open>
  Claim C8. Let an authenticated caller ask \<open>getById\<close> for a restaurant whose owner is
  someone else. The answer is the limited projection, a record that has no field for the
  phone, the e-mail address, the owner or the timestamps; it is the same answer whatever
  the phone and e-mail columns of the restaurant table hold; and each of its categories
  lists exactly the available items of the category, in display order, themselves
  projected.
\<close>

theorem getById_redacts_for_non_owner:
  assumes "s = Some \<lparr>s_user = Some u\<rparr>"
    and "find (\<lambda>r. r_id r = ident) (restaurants d) = Some r"
    and "r_ownerId r \<noteq> u_id u"
  shows "\<exists>v. getById ident s d = (d, Inr (Limited v)) \<and>
           map lc_menuItems (lr_menuCategories v) =
             map (\<lambda>c. map limitedItem
                         (filter mi_isAvailable (sort_key mi_displayOrder (categoryItems d c))))
               (sort_key c_displayOrder (restaurantCategories d r)) \<and>
           (\<forall>phone email.
              snd (getById ident s
                     (d\<lparr>restaurants :=
                          map (\<lambda>x. x\<lparr>r_phone := phone x, r_email := email x\<rparr>) (restaurants d)\<rparr>)) =
                Inr (Limited v))"
proof -
  have found: "find (\<lambda>r. r_id r = ident)
                 (map (\<lambda>x. x\<lparr>r_phone := phone x, r_email := email x\<rparr>) (restaurants d)) =
               Some (r\<lparr>r_phone := phone r, r_email := email r\<rparr>)" for phone email
    by (simp add: find_map_same_key assms(2))
  show ?thesis
    using assms
    by (simp add: getById_def protectedProcedure_def isAuthed_user getById_handler_def Let_def
        found restaurantCategories_frame categoryItems_frame limitedCategory_def o_def)
qed

text \<open>
  The customer of the scenario reads the cafe: the pie, which is switched off, is not
  listed, and erasing every phone and e-mail address from the table changes nothing.
\<close>

theorem getById_redacts_for_non_owner_witness:
  "sessionOf customer1 = Some \<lparr>s_user = Some customer1\<rparr> \<and>
   find (\<lambda>r. r_id r = ''R'') (restaurants db0) = Some cafe \<and>
   r_ownerId cafe \<noteq> u_id customer1 \<and>
   (\<exists>v. getById ''R'' (sessionOf customer1) db0 = (db0, Inr (Limited v)) \<and>
        map (map li_id) (map lc_menuItems (lr_menuCategories v)) = [[''burger'', ''mint'', ''gum'']] \<and>
        snd (getById ''R'' (sessionOf customer1)
               (db0\<lparr>restaurants :=
                     map (\<lambda>x. x\<lparr>r_phone := None, r_email := None\<rparr>) (restaurants db0)\<rparr>)) =
          Inr (Limited v))"
proof -
  have h1: "sessionOf customer1 = Some \<lparr>s_user = Some customer1\<rparr>"
    by (simp add: sessionOf_def)
  have h2: "find (\<lambda>r. r_id r = ''R'') (restaurants db0) = Some cafe"
    by (simp add: scenario_defs)
  have h3: "r_ownerId cafe \<noteq> u_id customer1"
    by (simp add: cafe_def customer1_def)
  have menu: "map (\<lambda>c. map limitedItem
                          (filter mi_isAvailable (sort_key mi_displayOrder (categoryItems db0 c))))
                (sort_key c_displayOrder (restaurantCategories db0 cafe)) =
              [[limitedItem (menuEntry ''burger'' ''Burger'' 999 True),
                limitedItem (menuEntry ''mint'' ''Mint'' 10 True),
                limitedItem (menuEntry ''gum'' ''Gum'' 20 True)]]"
    by (simp add: restaurantCategories_def categoryItems_def db0_def cafe_def mains_def
        menuEntry_def stew_def)
  from getById_redacts_for_non_owner [OF h1 h2 h3, unfolded menu] obtain v where
    all: "getById ''R'' (sessionOf customer1) db0 = (db0, Inr (Limited v)) \<and>
       map lc_menuItems (lr_menuCategories v) =
          [[limitedItem (menuEntry ''burger'' ''Burger'' 999 True),
            limitedItem (menuEntry ''mint'' ''Mint'' 10 True),
            limitedItem (menuEntry ''gum'' ''Gum'' 20 True)]] \<and>
       (\<forall>phone email.
          snd (getById ''R'' (sessionOf customer1)
                 (db0\<lparr>restaurants :=
                       map (\<lambda>x. x\<lparr>r_phone := phone x, r_email := email x\<rparr>) (restaurants db0)\<rparr>)) =
            Inr (Limited v))"
    ..
  note v = all [THEN conjunct1] all [THEN conjunct2, THEN conjunct1]
    all [THEN conjunct2, THEN conjunct2]
  have ids: "map (map li_id) (map lc_menuItems (lr_menuCategories v)) = [[''burger'', ''mint'', ''gum'']]"
    by (simp add: v(2) limitedItem_def menuEntry_def)
  from v(3) have erased:
    "snd (getById ''R'' (sessionOf customer1)
            (db0\<lparr>restaurants :=
                  map (\<lambda>x. x\<lparr>r_phone := None, r_email := None\<rparr>) (restaurants db0)\<rparr>)) =
       Inr (Limited v)"
    by (elim allE [of _ "\<lambda>x. None"])
  show ?thesis
    by (intro conjI exI [of _ v]) (rule h1 h2 h3 v(1) ids erased)+
qed

text \<open>
  Claim C10. \<open>getBySlug\<close> looks a restaurant up by its slug and returns it with its menu of
  available items whether or not it is active. The public listing, in contrast, is drawn
  from the active restaurants only, and \<open>placeOrder\<close> answers \<open>NOT_FOUND\<close> for an inactive
  restaurant.
\<close>

theorem getBySlug_returns_inactive:
  assumes "find (\<lambda>r. r_slug r = slug) (restaurants d) = Some r" and "\<not> r_isActive r"
  shows "(\<exists>menu. getBySlug slug s d = (d, Inr \<lparr>rw_restaurant = r, rw_menuCategories = menu\<rparr>) \<and>
            map cw_category menu = sort_key c_displayOrder (restaurantCategories d r) \<and>
            list_all (\<lambda>c. cw_menuItems c =
                        sort_key mi_displayOrder
                          (filter mi_isAvailable (categoryItems d (cw_category c)))) menu) \<and>
         (\<exists>listing. getAllPublic s d = (d, Inr listing) \<and>
            set listing = publicColumns ` {x \<in> set (restaurants d). r_isActive x}) \<and>
         (s' = Some \<lparr>s_user = Some u\<rparr> \<and> placeOrder_inputOk rt input \<and>
          find (\<lambda>x. r_id x = pi_restaurantId input) (restaurants d) = Some r \<longrightarrow>
            placeOrder st rt input s' d =
              (d, Inl (TRPCError NOT_FOUND ''Restaurant not found or not available'')))"
  using assms
  by (auto simp: getBySlug_def getAllPublic_def publicProcedure_def placeOrder_def
      protectedProcedure_def isAuthed_user placeOrder_handler_def list_all_iff o_def)

text \<open>
  The inactive restaurant of the scenario is returned by its slug; the listing holds the
  active one alone; an order for the inactive one is refused.
\<close>

theorem getBySlug_returns_inactive_witness:
  "find (\<lambda>r. r_slug r = ''bistro2'') (restaurants db0) = Some bistro \<and>
   \<not> r_isActive bistro \<and>
   getBySlug ''bistro2'' None db0 = (db0, Inr \<lparr>rw_restaurant = bistro, rw_menuCategories = []\<rparr>) \<and>
   getAllPublic None db0 = (db0, Inr [publicColumns cafe]) \<and>
   placeOrder schemaStorage rt0 (cartFor ''R2'' [cartLine ''stew'' (js_int 2)])
       (sessionOf customer1) db0 =
     (db0, Inl (TRPCError NOT_FOUND ''Restaurant not found or not available''))"
proof -
  have h1: "find (\<lambda>r. r_slug r = ''bistro2'') (restaurants db0) = Some bistro"
    by (simp add: scenario_defs)
  have h2: "\<not> r_isActive bistro"
    by (simp add: bistro_def)
  have h3: "sessionOf customer1 = Some \<lparr>s_user = Some customer1\<rparr>"
    by (simp add: sessionOf_def)
  have h4: "placeOrder_inputOk rt0 (cartFor ''R2'' [cartLine ''stew'' (js_int 2)])"
    by (simp add: placeOrder_inputOk_def cartFor_def cartLine_def two_ge_one)
  have h5: "find (\<lambda>x. r_id x = pi_restaurantId (cartFor ''R2'' [cartLine ''stew'' (js_int 2)]))
              (restaurants db0) = Some bistro"
    by (simp add: scenario_defs)
  have cats: "restaurantCategories db0 bistro = []"
    by (simp add: restaurantCategories_def scenario_defs)
  note inst = getBySlug_returns_inactive [OF h1 h2, of None "sessionOf customer1" customer1 rt0
      "cartFor ''R2'' [cartLine ''stew'' (js_int 2)]" schemaStorage]
  from inst have a: "getBySlug ''bistro2'' None db0 =
                      (db0, Inr \<lparr>rw_restaurant = bistro, rw_menuCategories = []\<rparr>)"
    by (auto simp: cats)
  from inst h3 h4 h5
  have c: "placeOrder schemaStorage rt0 (cartFor ''R2'' [cartLine ''stew'' (js_int 2)])
             (sessionOf customer1) db0 =
           (db0, Inl (TRPCError NOT_FOUND ''Restaurant not found or not available''))"
    by blast
  have b: "getAllPublic None db0 = (db0, Inr [publicColumns cafe])"
    by (simp add: getAllPublic_def publicProcedure_def scenario_defs)
  show ?thesis
    by (intro conjI) (rule h1 h2 a b c)+
qed

section \<open>The assistant's fallback\<close>

text \<open>
  Claim C9. For an authenticated caller, a non-empty message and an existing, active
  restaurant, \<open>chat\<close> never fails, whatever the text-generation service does; and when the
  service fails on the prompt built for the call, the answer is the fallback payload: a
  fixed text around the restaurant's name, the name, and the marker \<open>isFallback\<close> set.
\<close>

theorem chat_falls_back:
  assumes "s = Some \<lparr>s_user = Some u\<rparr>" and "ch_message input \<noteq> []"
    and "find (\<lambda>r. r_id r = ch_restaurantId input) (restaurants d) = Some r"
    and "r_isActive r"
  shows "(\<exists>response. chat generate input s d = (d, Inr response)) \<and>
         (generate (systemPrompt (availableMenu d r) input) = None \<longrightarrow>
            chat generate input s d = (d, Inr (fallbackResponse (r_name r))) \<and>
            cr_isFallback (fallbackResponse (r_name r)) = Some True \<and>
            cr_restaurantName (fallbackResponse (r_name r)) = r_name r)"
  using assms
  by (auto simp: chat_def protectedProcedure_def isAuthed_user chat_handler_def Let_def
      fallbackResponse_def split: option.splits)

text \<open>The customer of the scenario greets the cafe while the service is down.\<close>

theorem chat_falls_back_witness:
  "sessionOf customer1 = Some \<lparr>s_user = Some customer1\<rparr> \<and>
   find (\<lambda>r. r_id r = ''R'') (restaurants db0) = Some cafe \<and>
   r_isActive cafe \<and>
   chat (\<lambda>prompt. None)
        \<lparr>ch_restaurantId = ''R'', ch_message = ''hello'', ch_conversationHistory = None\<rparr>
        (sessionOf customer1) db0 =
     (db0, Inr (fallbackResponse ''Cafe One'')) \<and>
   cr_isFallback (fallbackResponse ''Cafe One'') = Some True"
proof -
  have h1: "sessionOf customer1 = Some \<lparr>s_user = Some customer1\<rparr>"
    by (simp add: sessionOf_def)
  have h2: "ch_message \<lparr>ch_restaurantId = ''R'', ch_message = ''hello'',
                         ch_conversationHistory = None\<rparr> \<noteq> []"
    by simp
  have h3: "find (\<lambda>r. r_id r =
                     ch_restaurantId \<lparr>ch_restaurantId = ''R'', ch_message = ''hello'',
                                        ch_conversationHistory = None\<rparr>)
              (restaurants db0) = Some cafe"
    by (simp add: scenario_defs)
  have h4: "r_isActive cafe"
    by (simp add: cafe_def)
  have name: "r_name cafe = ''Cafe One''"
    by (simp add: cafe_def)
  from chat_falls_back [OF h1 h2 h3 h4, of "\<lambda>prompt. None"] h1 h3 h4 show ?thesis
    by (simp add: name)
qed

end
